theory Spec2Isabelle
  imports Main "HOL-Library.Sublist" "HOL-Library.AList"
begin

section \<open>Python values and exceptions\<close>

text \<open>
  The values that travel through the router and the tools are decoded JSON documents.
  \<open>JNull\<close> is Python's \<open>None\<close>; a dictionary is an association list in
  insertion order, read with \<open>map_of\<close>.
\<close>

datatype json =
    JNull
  | JBool bool
  | JInt int
  | JStr string
  | JList "json list"
  | JObj "(string \<times> json) list"

type_synonym dict = "(string \<times> json) list"

datatype exc_class =
    KeyError | TypeError | AttributeError | ValueError
  | FileNotFoundError | RuntimeError | ImportError | OtherException

text \<open>An exception: its class and the text \<open>str(e)\<close> gives.\<close>

datatype exc = Exc (exc_class: exc_class) (exc_str: string)

text \<open>\<open>d.get(k)\<close>: \<open>None\<close> when the key is absent.\<close>

definition dict_get :: "dict \<Rightarrow> string \<Rightarrow> json" where
  "dict_get d k = (case map_of d k of None \<Rightarrow> JNull | Some v \<Rightarrow> v)"

text \<open>\<open>v[k]\<close>: KeyError on a dictionary without the key, TypeError on anything
  that is not a dictionary.\<close>

definition subscript :: "json \<Rightarrow> string \<Rightarrow> exc + json" where
  "subscript v k =
     (case v of
        JObj d \<Rightarrow>
          (case map_of d k of
             None \<Rightarrow> Inl (Exc KeyError k)
           | Some x \<Rightarrow> Inr x)
      | _ \<Rightarrow> Inl (Exc TypeError ''not subscriptable with a string key''))"

text \<open>\<open>v.startswith(p)\<close>: only a string has the method.\<close>

definition startswith :: "json \<Rightarrow> string \<Rightarrow> exc + bool" where
  "startswith v p =
     (case v of
        JStr s \<Rightarrow> Inr (prefix p s)
      | _ \<Rightarrow> Inl (Exc AttributeError ''startswith''))"

section \<open>The router: \<open>server.py\<close>, \<open>dispatch_proxy\<close>\<close>

text \<open>
  A request reaches \<open>dispatch_proxy\<close> either as a dictionary or as text
  (\<open>str\<close>, \<open>bytes\<close>, \<open>bytearray\<close>) still to be decoded.
\<close>

datatype raw_request = RDict dict | RText string

text \<open>The three places a request can be handed to.\<close>

datatype backend = Original | Local | Remote

text \<open>
  The module globals of \<open>server.py\<close> and the behaviour of everything the router
  calls but does not define: the JSON decoder, the proxy's own registry
  (\<open>dispatch_original\<close>), the registry of the in-process server
  (\<open>LOCAL_MCP_SERVER.registry.dispatch\<close>), the HTTP exchange with the remote peer
  (lines 121 to 128, \<open>Inl\<close> when any step of it raises), the text of the traceback,
  and the outcome of lines 88 to 95: importing \<open>get_session_manager\<close> and asking
  the manager for its current session (\<open>Inl\<close> when the import or the call raises,
  \<open>Inr None\<close> when no session is current).
\<close>

record world =
  FORCE_HEADLESS :: bool
  FORCE_RPC :: bool
  HAS_IDALIB :: bool
  LOCAL_MCP_SERVER :: bool
  platform_darwin :: bool
  json_loads :: "string \<Rightarrow> exc + json"
  dispatch_original :: "raw_request \<Rightarrow> exc + json"
  local_registry_dispatch :: "raw_request \<Rightarrow> exc + json"
  get_current_session :: "exc + string option"
  http_post :: "raw_request \<Rightarrow> exc + json"
  format_exc :: "exc \<Rightarrow> string"

text \<open>Lines 74 to 77.\<close>

definition decode_request :: "world \<Rightarrow> raw_request \<Rightarrow> exc + json" where
  "decode_request w request =
     (case request of
        RDict d \<Rightarrow> Inr (JObj d)
      | RText s \<Rightarrow> json_loads w s)"

text \<open>Lines 99 to 104.\<close>

definition is_discovery :: "json \<Rightarrow> bool" where
  "is_discovery method \<longleftrightarrow>
     method \<in> set [JStr ''tools/list'', JStr ''resources/list'',
                    JStr ''resources/templates/list'', JStr ''prompts/list'']"

text \<open>Lines 105 to 109.\<close>

definition is_open_command :: "json \<Rightarrow> dict \<Rightarrow> bool" where
  "is_open_command method request_obj \<longleftrightarrow>
     (if method = JStr ''tools/call'' then
        (case dict_get request_obj ''params'' of
           JObj params \<Rightarrow> dict_get params ''name'' = JStr ''open_database''
         | _ \<Rightarrow> False)
      else False)"

text \<open>
  The body of the \<open>try\<close> of lines 86 to 112, with the calls it made:
  \<open>Inl e\<close> when it raised \<open>e\<close>, \<open>Inr (Some r)\<close> when it returned \<open>r\<close> from
  \<open>dispatch_proxy\<close>, \<open>Inr None\<close> when it ran to its end without returning.
\<close>

definition try_local ::
  "world \<Rightarrow> raw_request \<Rightarrow> dict \<Rightarrow> json \<Rightarrow> backend list \<times> (exc + json option)" where
  "try_local w request request_obj method =
     (case get_current_session w of
        Inl e \<Rightarrow> ([], Inl e)
      | Inr cur \<Rightarrow>
          (let has_active_session = (cur \<noteq> None) in
           if FORCE_HEADLESS w \<or> is_discovery method
              \<or> is_open_command method request_obj \<or> has_active_session
           then
             (case local_registry_dispatch w request of
                Inl e \<Rightarrow> ([Local], Inl e)
              | Inr r \<Rightarrow> ([Local], Inr (Some r)))
           else ([], Inr None)))"

text \<open>Lines 135 to 142: the message of the error response.\<close>

definition error_msg :: "world \<Rightarrow> exc \<Rightarrow> string" where
  "error_msg w e =
     (let full_info = format_exc w e;
          shortcut = (if platform_darwin w then ''Ctrl+Option+M'' else ''Ctrl+Alt+M'')
      in if HAS_IDALIB w \<and> \<not> FORCE_RPC w then
           ''Failed to connect to IDA Pro (GUI) and no headless session is active. ''
           @ ''Use open_database() to open a binary headlessly, or start the IDA GUI ''
           @ ''and the MCP plugin ('' @ shortcut @ '').'' @ [CHR 0x0A] @ full_info
         else
           ''Failed to connect to IDA Pro! Did you run Edit -> Plugins -> MCP (''
           @ shortcut @ '') to start the server?'' @ [CHR 0x0A] @ full_info)"

text \<open>Lines 129 to 154: the handler of a failed exchange.\<close>

definition connection_failed :: "world \<Rightarrow> dict \<Rightarrow> exc \<Rightarrow> json" where
  "connection_failed w request_obj e =
     (let ident = dict_get request_obj ''id'' in
      if ident = JNull then JNull
      else JObj [(''jsonrpc'', JStr ''2.0''),
                 (''error'', JObj [(''code'', JInt (- 32000)),
                                   (''message'', JStr (error_msg w e)),
                                   (''data'', JStr (exc_str e))]),
                 (''id'', ident)])"

text \<open>Lines 119 to 156: forwarding to the remote peer.\<close>

definition forward :: "world \<Rightarrow> raw_request \<Rightarrow> dict \<Rightarrow> exc + json" where
  "forward w request request_obj =
     (case http_post w request of
        Inr response \<Rightarrow> Inr response
      | Inl e \<Rightarrow> Inr (connection_failed w request_obj e))"

text \<open>
  \<open>dispatch_proxy\<close>: the backends it called, in order, and what it returned
  (\<open>Inr JNull\<close> is returning \<open>None\<close>) or raised.
\<close>

definition dispatch_proxy :: "world \<Rightarrow> raw_request \<Rightarrow> backend list \<times> (exc + json)" where
  "dispatch_proxy w request =
     (case decode_request w request of
        Inl e \<Rightarrow> ([], Inl e)
      | Inr (JObj request_obj) \<Rightarrow>
          (case subscript (JObj request_obj) ''method'' of
             Inl e \<Rightarrow> ([], Inl e)
           | Inr method \<Rightarrow>
               if method = JStr ''initialize'' then ([Original], dispatch_original w request)
               else
                 (case startswith method ''notifications/'' of
                    Inl e \<Rightarrow> ([], Inl e)
                  | Inr True \<Rightarrow> ([Original], dispatch_original w request)
                  | Inr False \<Rightarrow>
                      if \<not> FORCE_RPC w \<and> HAS_IDALIB w \<and> LOCAL_MCP_SERVER w then
                        (case try_local w request request_obj method of
                           (calls, Inr (Some r)) \<Rightarrow> (calls, Inr r)
                         | (calls, Inr None) \<Rightarrow>
                             (calls @ [Remote], forward w request request_obj)
                         | (calls, Inl e) \<Rightarrow>
                             if FORCE_HEADLESS w then (calls, Inl e)
                             else (calls @ [Remote], forward w request request_obj))
                      else ([Remote], forward w request request_obj)))
      | Inr other \<Rightarrow> ([], Inl (Exc TypeError ''not subscriptable with a string key'')))"

section \<open>The session manager\<close>

text \<open>
  One opened analysis database (section 3 of the specification).
\<close>

record session =
  session_id :: string
  input_path :: string
  opened_at :: nat
  analysis_complete :: bool

text \<open>
  The manager's state: the sessions by id in insertion order, and the id of the current
  one, if any.
\<close>

record manager =
  sessions :: "(string \<times> session) list"
  current :: "string option"

text \<open>
  What the manager and the tools of \<open>api_pro.py\<close> take from outside: the flag
  \<open>HAS_IDALIB\<close> of the session module, the file system (existence of a path, its
  canonical form), the generator of session ids, the clock, and the analysis engine
  loading a file (\<open>Some e\<close> when it fails).
\<close>

record host =
  idalib_present :: bool
  path_exists :: "string \<Rightarrow> bool"
  resolve_path :: "string \<Rightarrow> string"
  generate_id :: "manager \<Rightarrow> string"
  clock :: nat
  engine_load :: "string \<Rightarrow> bool \<Rightarrow> exc option"

definition session_ids :: "manager \<Rightarrow> string list" where
  "session_ids m = map fst (sessions m)"

text \<open>
  Modelled from the spec: \<open>get_session\<close> of the session module, which is not among
  the sources; the session stored under an id, or \<open>None\<close>.
\<close>

definition get_session :: "manager \<Rightarrow> string \<Rightarrow> session option" where
  "get_session m sid = map_of (sessions m) sid"

text \<open>
  Modelled from the spec: \<open>current() -> Session | null\<close> of the session module,
  which is not among the sources.
\<close>

definition current_session :: "manager \<Rightarrow> session option" where
  "current_session m =
     (case current m of
        None \<Rightarrow> None
      | Some sid \<Rightarrow> get_session m sid)"

text \<open>
  Modelled from the spec: \<open>open\<close> of the session module (\<open>open_binary\<close> in
  \<open>api_pro.py\<close>), which is not among the sources. In the order of section 4.1: a path
  that does not exist is NotFound (\<open>FileNotFoundError\<close>, the class \<open>open_database\<close>
  catches first); a session already open on the same canonical path gives its id and
  nothing is created; otherwise the id is the requested one, a Conflict when it is taken,
  or a generated one; the engine loads the file, an EngineError (\<open>RuntimeError\<close>) when
  it cannot; the new session is stored and becomes current. A failed call leaves the
  manager as it was.
\<close>

definition open_binary ::
  "host \<Rightarrow> manager \<Rightarrow> string \<Rightarrow> bool \<Rightarrow> string option \<Rightarrow> (exc + string) \<times> manager" where
  "open_binary h m path run_auto_analysis requested =
     (let p = resolve_path h path in
      if \<not> path_exists h p then
        (Inl (Exc FileNotFoundError (''Input file not found: '' @ p)), m)
      else
        (case find (\<lambda>(sid, s). input_path s = p) (sessions m) of
           Some (sid, s) \<Rightarrow> (Inr sid, m)
         | None \<Rightarrow>
             (let sid = (case requested of Some r \<Rightarrow> r | None \<Rightarrow> generate_id h m) in
              if requested \<noteq> None \<and> sid \<in> set (session_ids m) then
                (Inl (Exc ValueError (''Session ID already exists: '' @ sid)), m)
              else
                (case engine_load h p run_auto_analysis of
                   Some e \<Rightarrow> (Inl e, m)
                 | None \<Rightarrow>
                     (Inr sid,
                      m\<lparr>sessions :=
                           AList.update sid
                             \<lparr>session_id = sid, input_path = p, opened_at = clock h,
                              analysis_complete = run_auto_analysis\<rparr>
                             (sessions m),
                         current := Some sid\<rparr>)))))"

text \<open>
  Modelled from the spec: \<open>close\<close> of the session module (\<open>close_session\<close>), which
  is not among the sources: false on an unknown id; otherwise the session leaves the
  mapping and, when it was current, the current pointer is cleared.
\<close>

definition close_session :: "manager \<Rightarrow> string \<Rightarrow> (exc + bool) \<times> manager" where
  "close_session m sid =
     (if sid \<notin> set (session_ids m) then (Inr False, m)
      else
        (Inr True,
         m\<lparr>sessions := filter (\<lambda>(k, s). k \<noteq> sid) (sessions m),
           current := (if current m = Some sid then None else current m)\<rparr>))"

text \<open>
  Modelled from the spec: \<open>switch\<close> of the session module (\<open>switch_session\<close>),
  which is not among the sources: NotFound on an unknown id (\<open>ValueError\<close>, the class
  \<open>switch_database\<close> turns into the bare message); otherwise the id becomes current
  and the answer is true.
\<close>

definition not_found :: "string \<Rightarrow> exc" where
  "not_found sid = Exc ValueError (''Session not found: '' @ sid)"

definition switch_session :: "manager \<Rightarrow> string \<Rightarrow> (exc + bool) \<times> manager" where
  "switch_session m sid =
     (if sid \<notin> set (session_ids m) then (Inl (not_found sid), m)
      else (Inr True, m\<lparr>current := Some sid\<rparr>))"

text \<open>
  Modelled from the spec: the session descriptor of section 6
  (\<open>{session_id, input_path, is_current, analysis_complete}\<close>), which \<open>to_dict\<close> of
  the session module, not among the sources, produces.
\<close>

definition to_dict :: "manager \<Rightarrow> session \<Rightarrow> json" where
  "to_dict m s =
     JObj [(''session_id'', JStr (session_id s)),
           (''input_path'', JStr (input_path s)),
           (''is_current'', JBool (current m = Some (session_id s))),
           (''analysis_complete'', JBool (analysis_complete s))]"

text \<open>
  Modelled from the spec: \<open>list\<close> of the session module (\<open>list_sessions\<close>), which is
  not among the sources: the descriptors in insertion order.
\<close>

definition list_sessions :: "manager \<Rightarrow> json list" where
  "list_sessions m = map (\<lambda>(k, s). to_dict m s) (sessions m)"

text \<open>
  The invariants of section 3: the ids are unique and each session is stored under its
  own id, no two sessions are open on the same path, and the current pointer, when it is
  set, is the id of an open session.
\<close>

definition wf_manager :: "manager \<Rightarrow> bool" where
  "wf_manager m \<longleftrightarrow>
     distinct (session_ids m)
     \<and> list_all (\<lambda>(k, s). session_id s = k) (sessions m)
     \<and> distinct (map (\<lambda>(k, s). input_path s) (sessions m))
     \<and> (case current m of None \<Rightarrow> True | Some c \<Rightarrow> c \<in> set (session_ids m))"

text \<open>\<open>Path.name\<close>: the last component of a path.\<close>

definition path_name :: "string \<Rightarrow> string" where
  "path_name p = rev (takeWhile (\<lambda>c. c \<noteq> CHR ''/'') (rev p))"

section \<open>The session tools: \<open>api_pro.py\<close>\<close>

text \<open>
  Each tool takes the manager and returns its result dictionary with the manager after
  the call. \<open>JNull\<close> is a tool that ran off its end and returned \<open>None\<close>.
\<close>

definition open_database ::
  "host \<Rightarrow> manager \<Rightarrow> string \<Rightarrow> bool \<Rightarrow> string option \<Rightarrow> json \<times> manager" where
  "open_database h manager path run_auto_analysis requested =
     (if \<not> idalib_present h then
        (JObj [(''error'', JStr ''open_database is only supported in headless idalib mode'')],
         manager)
      else
        (case open_binary h manager path run_auto_analysis requested of
           (Inr session_id_result, manager') \<Rightarrow>
             (case get_session manager' session_id_result of
                None \<Rightarrow>
                  (JObj [(''error'',
                          JStr (''Failed to retrieve session after opening: ''
                                @ session_id_result))],
                   manager')
              | Some s \<Rightarrow>
                  (JObj [(''success'', JBool True),
                         (''session'', to_dict manager' s),
                         (''message'',
                          JStr (''Binary opened successfully: '' @ path_name (input_path s)))],
                   manager'))
         | (Inl e, manager') \<Rightarrow>
             (if exc_class e = FileNotFoundError then
                JObj [(''error'', JStr (exc_str e))]
              else if exc_class e = RuntimeError then
                JObj [(''error'', JStr (''Failed to open binary: '' @ exc_str e))]
              else JObj [(''error'', JStr (''Unexpected error: '' @ exc_str e))],
              manager')))"

definition close_database :: "host \<Rightarrow> manager \<Rightarrow> string \<Rightarrow> json \<times> manager" where
  "close_database h manager sid =
     (if \<not> idalib_present h then
        (JObj [(''error'', JStr ''close_database is only supported in headless idalib mode'')],
         manager)
      else
        (case close_session manager sid of
           (Inr True, manager') \<Rightarrow>
             (JObj [(''success'', JBool True),
                    (''message'', JStr (''Session closed: '' @ sid))],
              manager')
         | (Inr False, manager') \<Rightarrow>
             (JObj [(''success'', JBool False),
                    (''error'', JStr (''Session not found: '' @ sid))],
              manager')
         | (Inl e, manager') \<Rightarrow>
             (JObj [(''error'', JStr (''Failed to close session: '' @ exc_str e))],
              manager')))"

definition switch_database :: "host \<Rightarrow> manager \<Rightarrow> string \<Rightarrow> json \<times> manager" where
  "switch_database h manager sid =
     (if \<not> idalib_present h then
        (JObj [(''error'', JStr ''switch_database is only supported in headless idalib mode'')],
         manager)
      else
        (case switch_session manager sid of
           (Inr True, manager') \<Rightarrow>
             (case current_session manager' of
                None \<Rightarrow>
                  (JObj [(''error'',
                          JStr ''Failed to retrieve current session after switching'')],
                   manager')
              | Some s \<Rightarrow>
                  (JObj [(''success'', JBool True),
                         (''session'', to_dict manager' s),
                         (''message'',
                          JStr (''Switched to session: '' @ sid @ '' (''
                                @ path_name (input_path s) @ '')''))],
                   manager'))
         | (Inr False, manager') \<Rightarrow> (JNull, manager')
         | (Inl e, manager') \<Rightarrow>
             (if exc_class e = ValueError then
                JObj [(''error'', JStr (exc_str e))]
              else if exc_class e = RuntimeError then
                JObj [(''error'', JStr (''Failed to switch session: '' @ exc_str e))]
              else JObj [(''error'', JStr (''Unexpected error: '' @ exc_str e))],
              manager')))"

definition list_databases :: "host \<Rightarrow> manager \<Rightarrow> json" where
  "list_databases h manager =
     (if \<not> idalib_present h then
        JObj [(''error'', JStr ''list_databases is only supported in headless idalib mode'')]
      else
        (let listed = list_sessions manager in
         JObj [(''sessions'', JList listed),
               (''count'', JInt (int (length listed))),
               (''current_session_id'',
                (case current_session manager of
                   None \<Rightarrow> JNull
                 | Some s \<Rightarrow> JStr (session_id s)))]))"

definition current_database :: "host \<Rightarrow> manager \<Rightarrow> json" where
  "current_database h manager =
     (if \<not> idalib_present h then
        JObj [(''error'', JStr ''current_database is only supported in headless idalib mode'')]
      else
        (case current_session manager of
           None \<Rightarrow>
             JObj [(''error'',
                    JStr ''No active session. Use open_database() to open a binary first.'')]
         | Some s \<Rightarrow> to_dict manager s))"

section \<open>Startup: \<open>server.py\<close>, \<open>main\<close>\<close>

text \<open>The parsed command line.\<close>

record args =
  arg_install :: bool
  arg_uninstall :: bool
  arg_allow_ida_free :: bool
  arg_transport :: string
  arg_ida_rpc :: "string option"
  arg_headless :: bool
  arg_rpc_only :: bool
  arg_verbose :: bool
  arg_config :: bool
  arg_input_path :: "string option"

text \<open>
  What \<open>main\<close> takes from outside: \<open>urlparse\<close> (host name and port of a URL; reading
  the port raises on a malformed one), the existence of the input file, and the session
  manager opening the initial binary (\<open>Some e\<close> when it raises).
\<close>

record startup =
  url_hostname :: "string \<Rightarrow> string option"
  url_port :: "string \<Rightarrow> exc + nat option"
  file_exists :: "string \<Rightarrow> bool"
  open_initial :: "string \<Rightarrow> exc option"

text \<open>
  What \<open>main\<close> does that is visible from outside, in order. The installers and the
  transports are the collaborators of section 1 and are recorded as calls:
  \<open>InstallIdaPlugin uninstall allow_ida_free\<close>,
  \<open>InstallMcpServers uninstall stdio mode\<close>, \<open>PrintMcpConfig mode\<close>,
  \<open>EnableConsoleMessages flag\<close>, \<open>ServeHttp host port\<close>; \<open>SetIdaRpc host port\<close>
  is the assignment of \<open>IDA_HOST\<close> and \<open>IDA_PORT\<close>.
\<close>

datatype action =
    Print string
  | SetIdaRpc string nat
  | InstallIdaPlugin bool bool
  | InstallMcpServers bool bool string
  | PrintMcpConfig string
  | EnableConsoleMessages bool
  | OpenInitialDatabase string
  | InstallSignalHandlers
  | ServeStdio
  | ServeHttp string nat

text \<open>How \<open>main\<close> ends: \<open>sys.exit\<close>, an exception nobody catches, or a return.\<close>

datatype ending = Exit int | Raise exc | Return

text \<open>Lines 979 to 983 and 1000 to 1004.\<close>

definition install_mode :: "bool \<Rightarrow> bool \<Rightarrow> string" where
  "install_mode force_headless force_rpc =
     (if force_headless then ''headless'' else if force_rpc then ''rpc'' else ''hybrid'')"

text \<open>
  Lines 1049 to 1066: an invalid transport URL raises; otherwise the transport serves
  until it is interrupted.
\<close>

definition serve :: "startup \<Rightarrow> args \<Rightarrow> action list \<times> ending" where
  "serve s a =
     (if arg_transport a = ''stdio'' then ([ServeStdio], Return)
      else
        (case url_hostname s (arg_transport a) of
           None \<Rightarrow>
             ([], Raise (Exc OtherException (''Invalid transport URL: '' @ arg_transport a)))
         | Some host \<Rightarrow>
             (case url_port s (arg_transport a) of
                Inl e \<Rightarrow> ([], Raise e)
              | Inr None \<Rightarrow>
                  ([], Raise (Exc OtherException
                                (''Invalid transport URL: '' @ arg_transport a)))
              | Inr (Some port) \<Rightarrow> ([ServeHttp host port], Return))))"

text \<open>Lines 1009 to 1047: the set-up of the in-process engine.\<close>

definition headless_setup :: "startup \<Rightarrow> args \<Rightarrow> action list \<times> exc option" where
  "headless_setup s a =
     (let console = [EnableConsoleMessages (arg_verbose a)] in
      case arg_input_path a of
        None \<Rightarrow> (console @ [InstallSignalHandlers], None)
      | Some path \<Rightarrow>
          if \<not> file_exists s path then
            (console, Some (Exc FileNotFoundError (''Input file not found: '' @ path)))
          else
            (case open_initial s path of
               Some e \<Rightarrow> (console, Some e)
             | None \<Rightarrow>
                 (console @ [OpenInitialDatabase path, InstallSignalHandlers], None)))"

text \<open>Lines 966 to 1066, once the two globals are set.\<close>

definition main_after_flags ::
  "bool \<Rightarrow> startup \<Rightarrow> args \<Rightarrow> bool \<Rightarrow> bool \<Rightarrow> action list \<times> ending" where
  "main_after_flags has_idalib s a force_headless force_rpc =
     (if force_headless \<and> force_rpc then
        ([Print ''Error: Cannot specify both --headless and --rpc-only''], Exit 1)
      else if force_headless \<and> \<not> has_idalib then
        ([Print ''Error: Headless mode requires idalib but it was not found.''], Exit 1)
      else if arg_install a \<and> arg_uninstall a then
        ([Print ''Cannot install and uninstall at the same time''], Return)
      else if arg_install a then
        ((if \<not> has_idalib \<or> force_rpc then [InstallIdaPlugin False (arg_allow_ida_free a)]
          else [Print ''idalib detected. Skipping IDA plugin installation (optional for headless).'',
                Print ''Use --rpc-only if you still want to install the plugin manually.''])
         @ [InstallMcpServers False (arg_transport a = ''stdio'')
              (install_mode force_headless force_rpc)],
         Return)
      else if arg_uninstall a then
        ([InstallIdaPlugin True (arg_allow_ida_free a), InstallMcpServers True False ''hybrid''],
         Return)
      else if arg_config a then
        ([PrintMcpConfig (install_mode force_headless force_rpc)], Return)
      else if has_idalib \<and> \<not> force_rpc then
        (case headless_setup s a of
           (done, Some e) \<Rightarrow> (done, Raise e)
         | (done, None) \<Rightarrow>
             (case serve s a of (served, fin) \<Rightarrow> (done @ served, fin)))
      else serve s a)"

text \<open>
  \<open>main\<close>, from the parsed command line on: the globals \<open>FORCE_HEADLESS\<close> and
  \<open>FORCE_RPC\<close> it leaves behind, what it did, and how it ended. Lines 956 to 961 come
  first: an \<open>--ida-rpc\<close> that is given and not empty must have a host name and a port.
\<close>

definition main :: "world \<Rightarrow> startup \<Rightarrow> args \<Rightarrow> world \<times> action list \<times> ending" where
  "main w s a =
     (let w' = w\<lparr>FORCE_HEADLESS := arg_headless a, FORCE_RPC := arg_rpc_only a\<rparr>;
          rest = main_after_flags (HAS_IDALIB w) s a (arg_headless a) (arg_rpc_only a)
      in case arg_ida_rpc a of
           None \<Rightarrow> (w', rest)
         | Some url \<Rightarrow>
             if url = [] then (w', rest)
             else
               (case url_hostname s url of
                  None \<Rightarrow>
                    (w, [], Raise (Exc OtherException (''Invalid IDA RPC server: '' @ url)))
                | Some host \<Rightarrow>
                    (case url_port s url of
                       Inl e \<Rightarrow> (w, [], Raise e)
                     | Inr None \<Rightarrow>
                         (w, [],
                          Raise (Exc OtherException (''Invalid IDA RPC server: '' @ url)))
                     | Inr (Some port) \<Rightarrow>
                         (w', SetIdaRpc host port # fst rest, snd rest))))"

text \<open>
  The status the process ends with: the argument of \<open>sys.exit\<close>, 1 after an exception
  nobody caught (the interpreter prints its traceback), 0 after a return.
\<close>

definition exit_status :: "ending \<Rightarrow> int" where
  "exit_status fin = (case fin of Exit n \<Rightarrow> n | Raise e \<Rightarrow> 1 | Return \<Rightarrow> 0)"

definition is_serving :: "action \<Rightarrow> bool" where
  "is_serving x = (case x of ServeStdio \<Rightarrow> True | ServeHttp host port \<Rightarrow> True | _ \<Rightarrow> False)"

section \<open>YARA rules: \<open>api_yara.py\<close>\<close>

text \<open>The Capstone constants \<open>_get_capstone_context\<close> chooses among.\<close>

datatype cs_arch = CS_ARCH_X86 | CS_ARCH_ARM | CS_ARCH_ARM64 | CS_ARCH_MIPS

text \<open>A Capstone mode is a list of flags, combined with \<open>|\<close> in the source.\<close>

datatype cs_mode_flag =
    CS_MODE_32 | CS_MODE_64 | CS_MODE_ARM | CS_MODE_THUMB
  | CS_MODE_MIPS32 | CS_MODE_MIPS64 | CS_MODE_LITTLE_ENDIAN | CS_MODE_BIG_ENDIAN

text \<open>A chunk handed to the generator: its bytes, its offset, whether it is data.\<close>

type_synonym chunk = "nat list \<times> int \<times> bool"

text \<open>
  The calls \<open>generate_yara_rule\<close> makes into the database (\<open>ida_ida\<close>,
  \<open>ida_segment\<close>, \<open>ida_bytes\<close>) and into the generator of \<open>mkyara\<close>, with their
  arguments. A run that makes none of them has read nothing of the database and has
  neither built a generator nor generated a rule.
\<close>

datatype engine_call =
    Inf_get_procname
  | Inf_get_app_bitness
  | Inf_is_be
  | Get_sreg int
  | YaraGenerator string cs_arch "cs_mode_flag list"
  | Get_item_size int
  | Get_flags int
  | Get_bytes int int
  | Add_chunk chunk
  | Generate_rule

text \<open>
  The database and the libraries behind \<open>generate_yara_rule\<close>: whether \<open>mkyara\<close>
  and \<open>capstone\<close> were imported, \<open>parse_address\<close> (of \<open>utils\<close>, which reads a
  number from its text and calls neither the database nor the generator), the processor
  of the database,
  the segment register \<open>T\<close>, the size of the item at an address (the engine's
  \<open>asize_t\<close>, an unsigned number), whether the flags at an address say code, the bytes
  of a range (\<open>None\<close> when the engine has none), and the generator producing the text of
  the rule from its mode, architecture and chunks once the name is set.
\<close>

record ida =
  HAS_MKYARA :: bool
  parse_address :: "string \<Rightarrow> exc + int"
  inf_get_procname :: string
  inf_get_app_bitness :: int
  inf_is_be :: bool
  get_sreg_T :: "int \<Rightarrow> int"
  get_item_size :: "int \<Rightarrow> nat"
  is_code_at :: "int \<Rightarrow> bool"
  get_bytes :: "int \<Rightarrow> int \<Rightarrow> nat list option"
  rule_string ::
    "string \<Rightarrow> string \<Rightarrow> cs_arch \<Rightarrow> cs_mode_flag list \<Rightarrow> chunk list \<Rightarrow> exc + string"

text \<open>\<open>str.lower\<close> on ASCII letters.\<close>

definition lower_char :: "char \<Rightarrow> char" where
  "lower_char c =
     (let n = (of_char c :: nat) in if 65 \<le> n \<and> n \<le> 90 then char_of (n + 32) else c)"

definition lower :: "string \<Rightarrow> string" where
  "lower s = map lower_char s"

text \<open>\<open>sep.join(xs)\<close>.\<close>

fun join :: "string \<Rightarrow> string list \<Rightarrow> string" where
  "join sep [] = []"
| "join sep [x] = x"
| "join sep (x # y # ys) = x @ sep @ join sep (y # ys)"

text \<open>\<open>hex(n)\<close>.\<close>

definition hex_digit :: "nat \<Rightarrow> char" where
  "hex_digit d = ''0123456789abcdef'' ! d"

function hex_nat :: "nat \<Rightarrow> string" where
  "hex_nat n = (if n < 16 then [hex_digit n] else hex_nat (n div 16) @ [hex_digit (n mod 16)])"
  by pat_completeness auto
termination
  by (relation "measure (\<lambda>n. n)") auto

definition hex :: "int \<Rightarrow> string" where
  "hex n = (if n < 0 then ''-0x'' @ hex_nat (nat (- n)) else ''0x'' @ hex_nat (nat n))"

text \<open>Lines 28 to 68, with the calls made: the three reads of lines 34 to 36 come first.\<close>

definition get_capstone_context ::
  "ida \<Rightarrow> int \<Rightarrow> engine_call list \<times> (exc + (cs_arch \<times> cs_mode_flag list))" where
  "get_capstone_context db ea =
     (let proc_name = lower (inf_get_procname db);
          is_64 = (inf_get_app_bitness db = 64);
          is_be = inf_is_be db;
          calls = [Inf_get_procname, Inf_get_app_bitness, Inf_is_be];
          endian_mode = (if is_be then CS_MODE_BIG_ENDIAN else CS_MODE_LITTLE_ENDIAN)
      in if proc_name \<in> set [''metapc'', ''80386'', ''80486'', ''p3'', ''p4'', ''8086''] then
           (calls, Inr (CS_ARCH_X86, [if is_64 then CS_MODE_64 else CS_MODE_32]))
         else if proc_name = ''arm'' then
           (if is_64 then (calls, Inr (CS_ARCH_ARM64, [CS_MODE_ARM, endian_mode]))
            else
              (let is_thumb = (get_sreg_T db ea = 1) in
               (calls @ [Get_sreg ea],
                Inr (CS_ARCH_ARM,
                     [if is_thumb then CS_MODE_THUMB else CS_MODE_ARM, endian_mode]))))
         else if proc_name = ''mips'' then
           (calls,
            Inr (CS_ARCH_MIPS, [if is_64 then CS_MODE_MIPS64 else CS_MODE_MIPS32, endian_mode]))
         else
           (calls,
            Inl (Exc ValueError
                   (''Architecture '' @ [CHR 0x27] @ proc_name @ [CHR 0x27]
                    @ '' is not currently supported for YARA generation.''))))"

text \<open>
  Lines 120 to 128: by how much one iteration of the loop advances. A size of 0 becomes
  1, and an item reaching past the end is cut at the end.
\<close>

definition advance :: "ida \<Rightarrow> int \<Rightarrow> int \<Rightarrow> int" where
  "advance db end_ea cur =
     (let item_size = int (get_item_size db cur);
          item_size = (if item_size = 0 then 1 else item_size)
      in if cur + item_size > end_ea then end_ea - cur else item_size)"

text \<open>
  Lines 120 to 158 for the item at \<open>cur\<close>: the calls made so far and the chunks in the
  generator, before and after. The size of the item is asked first (line 120), then its
  flags; its bytes only when it is to be added, and the generator only when there are
  bytes.
\<close>

definition add_item ::
  "ida \<Rightarrow> bool \<Rightarrow> int \<Rightarrow> int \<Rightarrow> int \<Rightarrow> engine_call list \<times> chunk list
     \<Rightarrow> engine_call list \<times> chunk list" where
  "add_item db include_data start cur item_size acc =
     (let calls = fst acc @ [Get_item_size cur, Get_flags cur];
          chunks = snd acc;
          is_code = is_code_at db cur;
          should_add = (is_code \<or> include_data);
          is_data_chunk = (\<not> is_code \<and> include_data)
      in if should_add then
           (case get_bytes db cur item_size of
              None \<Rightarrow> (calls @ [Get_bytes cur item_size], chunks)
            | Some chunk_bytes \<Rightarrow>
                if chunk_bytes = [] then (calls @ [Get_bytes cur item_size], chunks)
                else
                  (calls @ [Get_bytes cur item_size,
                            Add_chunk (chunk_bytes, cur - start, is_data_chunk)],
                   chunks @ [(chunk_bytes, cur - start, is_data_chunk)]))
         else (calls, chunks))"

text \<open>
  Lines 117 to 160: the loop. It is defined without any promise that it ends: \<open>None\<close>
  is the loop running forever, \<open>Some (calls, chunks)\<close> the calls made and the chunks it
  leaves in the generator.
\<close>

partial_function (option) collect_chunks ::
  "ida \<Rightarrow> bool \<Rightarrow> int \<Rightarrow> int \<Rightarrow> int \<Rightarrow> engine_call list \<times> chunk list
     \<Rightarrow> (engine_call list \<times> chunk list) option" where
  "collect_chunks db include_data start end_ea cur acc =
     (if cur < end_ea then
        collect_chunks db include_data start end_ea (cur + advance db end_ea cur)
          (add_item db include_data start cur (advance db end_ea cur) acc)
      else Some acc)"

definition valid_modes :: "string list" where
  "valid_modes = [''loose'', ''normal'', ''strict'']"

definition yara_error :: "string \<Rightarrow> json" where
  "yara_error text = JObj [(''error'', JStr text)]"

text \<open>
  Lines 99 to 172: the body of the outer \<open>try\<close>, its exceptions not yet caught, with
  the calls it made. Up to the comparison of the two addresses it makes none.
\<close>

definition generate_body ::
  "ida \<Rightarrow> string \<Rightarrow> string \<Rightarrow> string \<Rightarrow> string \<Rightarrow> bool
     \<Rightarrow> (engine_call list \<times> (exc + json)) option" where
  "generate_body db name start_addr end_addr mode include_data =
     (case parse_address db start_addr of
        Inl e \<Rightarrow> Some ([], Inl e)
      | Inr start \<Rightarrow>
          (case parse_address db end_addr of
             Inl e \<Rightarrow> Some ([], Inl e)
           | Inr end_ea \<Rightarrow>
               if start \<ge> end_ea then
                 Some ([], Inr (yara_error ''Start address must be less than end address.''))
               else
                 (case get_capstone_context db start of
                    (context_calls, Inl e) \<Rightarrow> Some (context_calls, Inr (yara_error (exc_str e)))
                  | (context_calls, Inr (arch, cs_mode)) \<Rightarrow>
                      (case collect_chunks db include_data start end_ea start
                              (context_calls @ [YaraGenerator mode arch cs_mode], []) of
                         None \<Rightarrow> None
                       | Some (calls, chunks) \<Rightarrow>
                           (case rule_string db name mode arch cs_mode chunks of
                              Inl e \<Rightarrow> Some (calls @ [Generate_rule], Inl e)
                            | Inr text \<Rightarrow>
                                Some (calls @ [Generate_rule],
                                  Inr (JObj
                                  [(''success'', JBool True),
                                   (''rule'', JStr text),
                                   (''info'',
                                    JStr (''Generated rule '' @ [CHR 0x27] @ name @ [CHR 0x27]
                                          @ '' from '' @ hex start @ '' to '' @ hex end_ea
                                          @ '' ('' @ mode @ '' mode)''))])))))))"

text \<open>
  \<open>generate_yara_rule\<close>: \<open>None\<close> when it never returns, \<open>Some (calls, r)\<close> when it
  returns the dictionary \<open>r\<close> after the calls \<open>calls\<close> into the database and the
  generator.
\<close>

definition generate_yara_rule ::
  "ida \<Rightarrow> string \<Rightarrow> string \<Rightarrow> string \<Rightarrow> string \<Rightarrow> bool
     \<Rightarrow> (engine_call list \<times> json) option" where
  "generate_yara_rule db name start_addr end_addr mode include_data =
     (if \<not> HAS_MKYARA db then
        Some ([],
              yara_error
                (''Required libraries not found. Please install ''
                 @ [CHR 0x27] @ ''mkyara'' @ [CHR 0x27] @ '' and ''
                 @ [CHR 0x27] @ ''capstone'' @ [CHR 0x27] @ ''.'' @ [CHR 0x0A]
                 @ ''pip install mkyara capstone''))
      else if mode \<notin> set valid_modes then
        Some ([],
              yara_error
                (''Invalid mode '' @ [CHR 0x27] @ mode @ [CHR 0x27]
                 @ ''. Must be one of: '' @ join '', '' valid_modes))
      else
        (case generate_body db name start_addr end_addr mode include_data of
           None \<Rightarrow> None
         | Some (calls, Inr r) \<Rightarrow> Some (calls, r)
         | Some (calls, Inl e) \<Rightarrow>
             Some (calls, yara_error (''Yara generation failed: '' @ exc_str e))))"

section \<open>Concrete inputs\<close>

text \<open>
  A process with the in-process engine loaded, whose remote peer refuses connections.
\<close>

definition sample_world :: "bool \<Rightarrow> bool \<Rightarrow> string option \<Rightarrow> world" where
  "sample_world force_headless force_rpc cur =
     \<lparr>FORCE_HEADLESS = force_headless, FORCE_RPC = force_rpc, HAS_IDALIB = True,
      LOCAL_MCP_SERVER = True, platform_darwin = False,
      json_loads = (\<lambda>s. Inl (Exc ValueError ''Expecting value'')),
      dispatch_original = (\<lambda>r. Inr (JObj [(''result'', JStr ''original'')])),
      local_registry_dispatch = (\<lambda>r. Inr (JObj [(''result'', JStr ''local'')])),
      get_current_session = Inr cur,
      http_post = (\<lambda>r. Inl (Exc OtherException ''Connection refused'')),
      format_exc = (\<lambda>e. ''Traceback: '' @ exc_str e)\<rparr>"


text \<open>The same process with a local registry that raises on every request.\<close>

definition failing_local_world :: "bool \<Rightarrow> world" where
  "failing_local_world force_headless =
     (sample_world force_headless False None)
       \<lparr>local_registry_dispatch := \<lambda>r. Inl (Exc RuntimeError ''no database'')\<rparr>"

definition list_request :: dict where
  "list_request = [(''method'', JStr ''tools/list''), (''id'', JInt 3)]"

text \<open>
  A host with idalib and the files \<open>/bin/a\<close> and \<open>/bin/b\<close>, and a manager holding
  one session on each, the second one current.
\<close>

definition sample_host :: "bool \<Rightarrow> host" where
  "sample_host with_idalib =
     \<lparr>idalib_present = with_idalib,
      path_exists = (\<lambda>p. p \<in> set [''/bin/a'', ''/bin/b'']),
      resolve_path = (\<lambda>p. p),
      generate_id = (\<lambda>m. ''auto''),
      clock = 0,
      engine_load = (\<lambda>p run. None)\<rparr>"

definition session_a :: session where
  "session_a = \<lparr>session_id = ''A'', input_path = ''/bin/a'', opened_at = 0,
                 analysis_complete = True\<rparr>"

definition session_b :: session where
  "session_b = \<lparr>session_id = ''B'', input_path = ''/bin/b'', opened_at = 0,
                 analysis_complete = True\<rparr>"

definition sample_manager :: manager where
  "sample_manager = \<lparr>sessions = [(''A'', session_a), (''B'', session_b)], current = Some ''B''\<rparr>"

text \<open>A command line with both mode flags, and a start-up environment.\<close>

definition sample_startup :: startup where
  "sample_startup =
     \<lparr>url_hostname = (\<lambda>u. if u = ''http://127.0.0.1:13337'' then Some ''127.0.0.1'' else None),
      url_port = (\<lambda>u. if u = ''http://127.0.0.1:13337'' then Inr (Some 13337) else Inr None),
      file_exists = (\<lambda>p. False),
      open_initial = (\<lambda>p. None)\<rparr>"

definition both_flags :: args where
  "both_flags =
     \<lparr>arg_install = False, arg_uninstall = False, arg_allow_ida_free = False,
      arg_transport = ''stdio'', arg_ida_rpc = None, arg_headless = True,
      arg_rpc_only = True, arg_verbose = False, arg_config = False,
      arg_input_path = None\<rparr>"

text \<open>
  An x86 database in which the engine reports size 0 everywhere and nothing is code,
  with \<open>mkyara\<close> installed or not.
\<close>

definition sample_ida :: "bool \<Rightarrow> ida" where
  "sample_ida has_mkyara =
     \<lparr>HAS_MKYARA = has_mkyara,
      parse_address =
        (\<lambda>a. if a = ''0x1000'' then Inr 4096
              else if a = ''0x1003'' then Inr 4099
              else Inl (Exc ValueError (''Failed to parse address: '' @ a))),
      inf_get_procname = ''metapc'',
      inf_get_app_bitness = 64,
      inf_is_be = False,
      get_sreg_T = (\<lambda>ea. 0),
      get_item_size = (\<lambda>ea. 0),
      is_code_at = (\<lambda>ea. False),
      get_bytes = (\<lambda>ea n. None),
      rule_string = (\<lambda>name mode arch cs_mode chunks. Inr (''rule '' @ name))\<rparr>"

section \<open>Routing\<close>

text \<open>
  Once the method is known to be a string that is neither the handshake nor a
  notification, \<open>dispatch_proxy\<close> is the choice between the local attempt and the
  remote peer.
\<close>

lemma dispatch_proxy_method:
  assumes "decode_request w request = Inr (JObj request_obj)"
    and "map_of request_obj ''method'' = Some (JStr method)"
    and "method \<noteq> ''initialize''" and "\<not> prefix ''notifications/'' method"
  shows "dispatch_proxy w request =
     (if \<not> FORCE_RPC w \<and> HAS_IDALIB w \<and> LOCAL_MCP_SERVER w then
        (case try_local w request request_obj (JStr method) of
           (calls, Inr (Some r)) \<Rightarrow> (calls, Inr r)
         | (calls, Inr None) \<Rightarrow> (calls @ [Remote], forward w request request_obj)
         | (calls, Inl e) \<Rightarrow>
             if FORCE_HEADLESS w then (calls, Inl e)
             else (calls @ [Remote], forward w request request_obj))
      else ([Remote], forward w request request_obj))"
  using assms by (simp add: dispatch_proxy_def subscript_def startswith_def)









text \<open>
  C3. A request whose method is \<open>initialize\<close> or starts with \<open>notifications/\<close> is
  handed to the original dispatch of the proxy's own registry and to nothing else,
  whatever the flags are and whether or not a session exists.
\<close>

theorem handshake_dispatched_by_original:
  assumes "decode_request w request = Inr (JObj request_obj)"
    and "map_of request_obj ''method'' = Some (JStr method)"
    and "method = ''initialize'' \<or> prefix ''notifications/'' method"
  shows "dispatch_proxy w request = ([Original], dispatch_original w request)
         \<and> Remote \<notin> set (fst (dispatch_proxy w request))
         \<and> Local \<notin> set (fst (dispatch_proxy w request))"
  using assms by (auto simp add: dispatch_proxy_def subscript_def startswith_def)

theorem handshake_dispatched_by_original_witness:
  "dispatch_proxy (sample_world False True None) (RDict [(''method'', JStr ''initialize'')])
     = ([Original], Inr (JObj [(''result'', JStr ''original'')]))
   \<and> dispatch_proxy (sample_world True False None)
        (RDict [(''method'', JStr ''notifications/initialized'')])
     = ([Original], Inr (JObj [(''result'', JStr ''original'')]))"
  using handshake_dispatched_by_original
          [of "sample_world False True None" "RDict [(''method'', JStr ''initialize'')]"
              "[(''method'', JStr ''initialize'')]" "''initialize''"]
        handshake_dispatched_by_original
          [of "sample_world True False None"
              "RDict [(''method'', JStr ''notifications/initialized'')]"
              "[(''method'', JStr ''notifications/initialized'')]" "''notifications/initialized''"]
  by (simp add: decode_request_def sample_world_def)

text \<open>
  C4. A request that takes the local path (its method is neither the handshake nor a
  notification, idalib is present, the local server is loaded, \<open>FORCE_RPC\<close> is not
  set) and on which the body of the \<open>try\<close> raises \<open>e\<close>: with \<open>FORCE_HEADLESS\<close> set
  \<open>dispatch_proxy\<close> raises \<open>e\<close> and the remote peer is not called; with
  \<open>FORCE_HEADLESS\<close> not set the exception is dropped, the remote peer is called next
  and \<open>dispatch_proxy\<close> ends as the forwarding does.
\<close>

theorem local_failure_reraised_or_forwarded:
  assumes "decode_request w request = Inr (JObj request_obj)"
    and "map_of request_obj ''method'' = Some (JStr method)"
    and "method \<noteq> ''initialize''" and "\<not> prefix ''notifications/'' method"
    and "HAS_IDALIB w" and "LOCAL_MCP_SERVER w" and "\<not> FORCE_RPC w"
    and "snd (try_local w request request_obj (JStr method)) = Inl e"
  shows "(FORCE_HEADLESS w \<longrightarrow>
            snd (dispatch_proxy w request) = Inl e
            \<and> Remote \<notin> set (fst (dispatch_proxy w request)))
       \<and> (\<not> FORCE_HEADLESS w \<longrightarrow>
            fst (dispatch_proxy w request)
              = fst (try_local w request request_obj (JStr method)) @ [Remote]
            \<and> snd (dispatch_proxy w request) = forward w request request_obj)"
proof -
  obtain calls where tl: "try_local w request request_obj (JStr method) = (calls, Inl e)"
    using assms(8) by (cases "try_local w request request_obj (JStr method)") simp
  have "Remote \<notin> set calls"
    using tl by (auto simp add: try_local_def split: sum.splits if_splits)
  then show ?thesis
    unfolding dispatch_proxy_method[OF assms(1-4)] tl
    using assms(5-7) by simp
qed

theorem local_failure_reraised_or_forwarded_witness:
  "snd (dispatch_proxy (failing_local_world True) (RDict list_request))
     = Inl (Exc RuntimeError ''no database'')
   \<and> Remote \<notin> set (fst (dispatch_proxy (failing_local_world True) (RDict list_request)))
   \<and> fst (dispatch_proxy (failing_local_world False) (RDict list_request)) = [Local, Remote]"
proof -
  have tl: "try_local (failing_local_world fh) (RDict list_request) list_request
              (JStr ''tools/list'') = ([Local], Inl (Exc RuntimeError ''no database''))" for fh
    by (simp add: try_local_def failing_local_world_def sample_world_def is_discovery_def)
  have flags: "HAS_IDALIB (failing_local_world fh)" "LOCAL_MCP_SERVER (failing_local_world fh)"
    "\<not> FORCE_RPC (failing_local_world fh)" "FORCE_HEADLESS (failing_local_world fh) = fh" for fh
    by (simp_all add: failing_local_world_def sample_world_def)
  have dec: "decode_request (failing_local_world fh) (RDict list_request)
               = Inr (JObj list_request)" for fh
    by (simp add: decode_request_def)
  have meth: "map_of list_request ''method'' = Some (JStr ''tools/list'')"
    by (simp add: list_request_def)
  have a: "FORCE_HEADLESS (failing_local_world True) \<longrightarrow>
      snd (dispatch_proxy (failing_local_world True) (RDict list_request))
        = Inl (Exc RuntimeError ''no database'')
      \<and> Remote \<notin> set (fst (dispatch_proxy (failing_local_world True) (RDict list_request)))"
    using local_failure_reraised_or_forwarded
            [of "failing_local_world True" "RDict list_request" list_request
                "''tools/list''" "Exc RuntimeError ''no database''"]
    by (simp add: dec meth flags tl)
  have b: "\<not> FORCE_HEADLESS (failing_local_world False) \<longrightarrow>
      fst (dispatch_proxy (failing_local_world False) (RDict list_request))
        = fst (try_local (failing_local_world False) (RDict list_request) list_request
                 (JStr ''tools/list'')) @ [Remote]"
    using local_failure_reraised_or_forwarded
            [of "failing_local_world False" "RDict list_request" list_request
                "''tools/list''" "Exc RuntimeError ''no database''"]
    by (simp add: dec meth flags tl)
  from a b show ?thesis by (simp add: flags(4) tl)
qed

section \<open>Sessions\<close>

text \<open>
  The invariants hold of the empty manager and are kept by every operation.
\<close>

lemma wf_manager_empty: "wf_manager \<lparr>sessions = [], current = None\<rparr>"
  by (simp add: wf_manager_def session_ids_def)

lemma wf_manager_switch: "wf_manager m \<Longrightarrow> wf_manager (snd (switch_session m sid))"
  by (auto simp add: switch_session_def wf_manager_def session_ids_def split: option.splits)

lemma wf_manager_close: "wf_manager m \<Longrightarrow> wf_manager (snd (close_session m sid))"
  by (auto simp add: close_session_def wf_manager_def session_ids_def distinct_map_filter
      list_all_iff split: option.splits)

text \<open>Storing a session under an id adds at most that entry.\<close>

lemma set_update_subset: "set (AList.update k v xs) \<subseteq> insert (k, v) (set xs)"
  by (induction xs) auto

lemma update_keeps_paths_distinct:
  assumes "distinct (map (\<lambda>(k, s). input_path s) xs)"
    and "\<forall>(k, s) \<in> set xs. input_path s \<noteq> input_path v"
  shows "distinct (map (\<lambda>(k, s). input_path s) (AList.update sid v xs))"
  using assms
proof (induction xs)
  case Nil
  then show ?case by simp
next
  case (Cons x xs)
  have sub: "set (AList.update sid v xs) \<subseteq> insert (sid, v) (set xs)"
    by (rule set_update_subset)
  from Cons show ?case
    using sub by (cases x) (auto simp: image_iff)
qed

lemma find_None_paths:
  "find (\<lambda>(k, s). input_path s = p) xs = None \<Longrightarrow> \<forall>(k, s) \<in> set xs. input_path s \<noteq> p"
  by (auto simp: find_None_iff)

lemma wf_manager_open:
  assumes "wf_manager m"
  shows "wf_manager (snd (open_binary h m path run_auto_analysis requested))"
proof (cases "open_binary h m path run_auto_analysis requested = (Inr (case requested of Some r \<Rightarrow> r | None \<Rightarrow> generate_id h m),
        m\<lparr>sessions :=
             AList.update (case requested of Some r \<Rightarrow> r | None \<Rightarrow> generate_id h m)
               \<lparr>session_id = (case requested of Some r \<Rightarrow> r | None \<Rightarrow> generate_id h m),
                input_path = resolve_path h path, opened_at = clock h,
                analysis_complete = run_auto_analysis\<rparr>
               (sessions m),
           current := Some (case requested of Some r \<Rightarrow> r | None \<Rightarrow> generate_id h m)\<rparr>)
      \<and> find (\<lambda>(sid, s). input_path s = resolve_path h path) (sessions m) = None")
  case False
  then have "snd (open_binary h m path run_auto_analysis requested) = m"
    by (auto simp add: open_binary_def Let_def split: option.splits if_splits)
  with assms show ?thesis by simp
next
  case True
  define sid where "sid = (case requested of Some r \<Rightarrow> r | None \<Rightarrow> generate_id h m)"
  define v where "v = \<lparr>session_id = sid, input_path = resolve_path h path, opened_at = clock h,
                analysis_complete = run_auto_analysis\<rparr>"
  from True have m': "snd (open_binary h m path run_auto_analysis requested)
      = m\<lparr>sessions := AList.update sid v (sessions m), current := Some sid\<rparr>"
    and nf: "find (\<lambda>(sid, s). input_path s = resolve_path h path) (sessions m) = None"
    by (simp_all add: sid_def v_def)
  have d1: "distinct (map fst (AList.update sid v (sessions m)))"
    using assms by (simp add: wf_manager_def session_ids_def distinct_update)
  have d2: "list_all (\<lambda>(k, s). session_id s = k) (AList.update sid v (sessions m))"
    using assms set_update_subset[of sid v "sessions m"]
    by (auto simp add: wf_manager_def list_all_iff v_def)
  have d3: "distinct (map (\<lambda>(k, s). input_path s) (AList.update sid v (sessions m)))"
    using assms find_None_paths[OF nf]
    by (intro update_keeps_paths_distinct) (simp_all add: wf_manager_def v_def)
  have d4: "sid \<in> set (map fst (AList.update sid v (sessions m)))"
    by (simp add: dom_update)
  show ?thesis
    unfolding m' using d1 d2 d3 d4 by (simp add: wf_manager_def session_ids_def)
qed

text \<open>
  In a well-formed manager the session open on a path is found by that path, and it is
  the one stored under its id.
\<close>

lemma find_distinct_image:
  "distinct (map f xs) \<Longrightarrow> x \<in> set xs \<Longrightarrow> find (\<lambda>y. f y = f x) xs = Some x"
  by (induction xs) (auto simp: image_iff)

lemma find_open_session:
  assumes "wf_manager m" and "(sid, s) \<in> set (sessions m)"
  shows "find (\<lambda>(k, s'). input_path s' = input_path s) (sessions m) = Some (sid, s)"
proof -
  have "distinct (map (\<lambda>(k, s). input_path s) (sessions m))"
    using assms(1) by (simp add: wf_manager_def)
  from find_distinct_image[OF this assms(2)] show ?thesis
    by (simp add: case_prod_unfold)
qed

lemma get_open_session:
  assumes "wf_manager m" and "(sid, s) \<in> set (sessions m)"
  shows "get_session m sid = Some s" and "session_id s = sid"
proof -
  have "distinct (map fst (sessions m))"
    using assms(1) by (simp add: wf_manager_def session_ids_def)
  then show "get_session m sid = Some s"
    using assms(2) by (simp add: get_session_def)
  have "list_all (\<lambda>(k, s). session_id s = k) (sessions m)"
    using assms(1) by (simp add: wf_manager_def)
  then show "session_id s = sid"
    using assms(2) by (auto simp: list_all_iff)
qed

text \<open>
  C5. In idalib mode, for a path whose canonical form exists and is already the path of a
  session \<open>s\<close> stored under \<open>sid\<close> in a well-formed manager, \<open>open_database\<close>
  answers with success and the descriptor of that session, whose id is \<open>sid\<close>, and
  leaves the manager, hence the number of sessions, as it was.
\<close>

theorem open_database_idempotent:
  assumes "idalib_present h" and "wf_manager m"
    and "(sid, s) \<in> set (sessions m)" and "input_path s = resolve_path h path"
    and "path_exists h (resolve_path h path)"
  shows "open_database h m path run_auto_analysis requested =
           (JObj [(''success'', JBool True),
                  (''session'',
                   JObj [(''session_id'', JStr sid),
                         (''input_path'', JStr (resolve_path h path)),
                         (''is_current'', JBool (current m = Some sid)),
                         (''analysis_complete'', JBool (analysis_complete s))]),
                  (''message'',
                   JStr (''Binary opened successfully: '' @ path_name (resolve_path h path)))],
            m)
         \<and> length (sessions (snd (open_database h m path run_auto_analysis requested)))
             = length (sessions m)"
proof -
  have ob: "open_binary h m path run_auto_analysis requested = (Inr sid, m)"
    using find_open_session[OF assms(2,3)] assms(4,5)
    by (simp add: open_binary_def Let_def)
  show ?thesis
    using assms(1,4) get_open_session[OF assms(2,3)]
    by (simp add: open_database_def ob to_dict_def)
qed

theorem open_database_idempotent_witness:
  "open_database (sample_host True) sample_manager ''/bin/a'' True None =
     (JObj [(''success'', JBool True),
            (''session'',
             JObj [(''session_id'', JStr ''A''),
                   (''input_path'', JStr ''/bin/a''),
                   (''is_current'', JBool False),
                   (''analysis_complete'', JBool True)]),
            (''message'', JStr ''Binary opened successfully: a'')],
      sample_manager)"
proof -
  have wf: "wf_manager sample_manager"
    by (simp add: wf_manager_def sample_manager_def session_ids_def session_a_def session_b_def)
  have mem: "(''A'', session_a) \<in> set (sessions sample_manager)"
    by (simp add: sample_manager_def)
  have h: "idalib_present (sample_host True)" "resolve_path (sample_host True) p = p"
    "path_exists (sample_host True) ''/bin/a''" for p
    by (simp_all add: sample_host_def)
  have "input_path session_a = resolve_path (sample_host True) ''/bin/a''"
    by (simp add: h session_a_def)
  from open_database_idempotent[OF h(1) wf mem this, of True None] show ?thesis
    by (simp add: h session_a_def sample_manager_def path_name_def)
qed

text \<open>
  C6. For a session id that is not in the mapping, \<open>switch_database\<close> returns an error
  dictionary and nothing else (in idalib mode its text is that of the manager's NotFound
  error; without idalib it is the tool's refusal), and the manager, with its current
  pointer, is unchanged.
\<close>

theorem switch_unknown_session:
  assumes "sid \<notin> set (session_ids m)"
  shows "switch_database h m sid =
           (JObj [(''error'',
                   JStr (if idalib_present h then exc_str (not_found sid)
                         else ''switch_database is only supported in headless idalib mode''))],
            m)
         \<and> current (snd (switch_database h m sid)) = current m"
  using assms by (simp add: switch_database_def switch_session_def not_found_def)

theorem switch_unknown_session_witness:
  "switch_database (sample_host True) sample_manager ''nope'' =
     (JObj [(''error'', JStr ''Session not found: nope'')], sample_manager)"
  using switch_unknown_session[of "''nope''" sample_manager "sample_host True"]
  by (simp add: session_ids_def sample_manager_def sample_host_def not_found_def)

text \<open>
  C7. For a session id that is not in the mapping, \<open>close_database\<close> raises nothing and
  returns an unsuccessful result (in idalib mode \<open>success\<close> false with the message that
  the session was not found; without idalib the tool's refusal), and the manager, with
  its mapping and its current pointer, is unchanged.
\<close>

theorem close_unknown_session:
  assumes "sid \<notin> set (session_ids m)"
  shows "close_database h m sid =
           (if idalib_present h then
              JObj [(''success'', JBool False),
                    (''error'', JStr (''Session not found: '' @ sid))]
            else JObj [(''error'',
                        JStr ''close_database is only supported in headless idalib mode'')],
            m)"
  using assms by (simp add: close_database_def close_session_def)

theorem close_unknown_session_witness:
  "close_database (sample_host True) sample_manager ''nope'' =
     (JObj [(''success'', JBool False), (''error'', JStr ''Session not found: nope'')],
      sample_manager)"
  using close_unknown_session[of "''nope''" sample_manager "sample_host True"]
  by (simp add: session_ids_def sample_manager_def sample_host_def)

section \<open>Startup\<close>

text \<open>With both mode flags set, what follows the setting of the globals is the error exit.\<close>

lemma main_both_flags:
  assumes "arg_headless a" and "arg_rpc_only a"
  shows "main_after_flags has_idalib s a (arg_headless a) (arg_rpc_only a)
           = ([Print ''Error: Cannot specify both --headless and --rpc-only''], Exit 1)"
  using assms by (simp add: main_after_flags_def)

text \<open>
  C8. With both \<open>--headless\<close> and \<open>--rpc-only\<close> on the command line, the process ends
  with status 1 and no transport is ever started. Unless an invalid \<open>--ida-rpc\<close>
  argument has raised first (lines 956 to 961 come before the flags), \<open>main\<close> prints the
  error about the two flags and calls \<open>sys.exit(1)\<close>; with no \<open>--ida-rpc\<close> argument
  that print and that exit are all it does.
\<close>

theorem contradictory_flags_fatal:
  assumes "arg_headless a" and "arg_rpc_only a"
  shows "exit_status (snd (snd (main w s a))) = 1
       \<and> \<not> list_ex is_serving (fst (snd (main w s a)))
       \<and> ((\<forall>e. snd (snd (main w s a)) \<noteq> Raise e) \<longrightarrow>
            snd (snd (main w s a)) = Exit 1
            \<and> Print ''Error: Cannot specify both --headless and --rpc-only''
                \<in> set (fst (snd (main w s a))))
       \<and> (arg_ida_rpc a = None \<longrightarrow>
            snd (main w s a)
              = ([Print ''Error: Cannot specify both --headless and --rpc-only''], Exit 1))"
proof -
  note rest = main_both_flags[OF assms]
  note ev = main_def Let_def rest exit_status_def is_serving_def
  show ?thesis
  proof (cases "arg_ida_rpc a")
    case None
    then show ?thesis by (simp add: ev)
  next
    case (Some url)
    note url = Some
    show ?thesis
    proof (cases "url = []")
      case True
      with url show ?thesis by (simp add: ev)
    next
      case nonempty: False
      show ?thesis
      proof (cases "url_hostname s url")
        case None
        with url nonempty show ?thesis by (simp add: ev)
      next
        case (Some host)
        note host = Some
        show ?thesis
        proof (cases "url_port s url")
          case (Inl e)
          with url nonempty host show ?thesis by (simp add: ev)
        next
          case (Inr port)
          with url nonempty host show ?thesis by (cases port) (simp_all add: ev)
        qed
      qed
    qed
  qed
qed

theorem contradictory_flags_fatal_witness:
  "snd (main (sample_world False False None) sample_startup both_flags)
     = ([Print ''Error: Cannot specify both --headless and --rpc-only''], Exit 1)
   \<and> exit_status (snd (snd (main (sample_world False False None) sample_startup both_flags))) = 1"
proof -
  have flags: "arg_headless both_flags" "arg_rpc_only both_flags" "arg_ida_rpc both_flags = None"
    by (simp_all add: both_flags_def)
  note fatal =
    contradictory_flags_fatal[OF flags(1,2), of "sample_world False False None" sample_startup]
  have status:
    "exit_status (snd (snd (main (sample_world False False None) sample_startup both_flags))) = 1"
    by (rule fatal[THEN conjunct1])
  have outcome: "snd (main (sample_world False False None) sample_startup both_flags)
     = ([Print ''Error: Cannot specify both --headless and --rpc-only''], Exit 1)"
    by (rule fatal[THEN conjunct2, THEN conjunct2, THEN conjunct2, THEN mp, OF flags(3)])
  show ?thesis by (rule conjI[OF outcome status])
qed

section \<open>YARA rules\<close>

text \<open>
  Inside the loop the advance is at least one address and never passes the end; so the
  distance to the end shrinks, and the loop returns from every state.
\<close>

lemma advance_bounds:
  assumes "cur < end_ea"
  shows "1 \<le> advance db end_ea cur" and "cur + advance db end_ea cur \<le> end_ea"
  using assms by (auto simp add: advance_def Let_def)

lemma collect_chunks_returns:
  "\<exists>result. collect_chunks db include_data start end_ea cur acc = Some result"
proof (induction "nat (end_ea - cur)" arbitrary: cur acc rule: less_induct)
  case less
  show ?case
  proof (cases "cur < end_ea")
    case False
    then show ?thesis by (subst collect_chunks.simps) simp
  next
    case True
    from advance_bounds[OF True, of db]
    have "nat (end_ea - (cur + advance db end_ea cur)) < nat (end_ea - cur)"
      by linarith
    from less[OF this] obtain result where
      "collect_chunks db include_data start end_ea (cur + advance db end_ea cur)
         (add_item db include_data start cur (advance db end_ea cur) acc) = Some result"
      by blast
    with True show ?thesis by (subst collect_chunks.simps) simp
  qed
qed

text \<open>
  C9. For \<open>start < end\<close> the loop of \<open>generate_yara_rule\<close> returns, whatever was
  called and collected before it, because in every
  iteration the advance is at least 1 (a reported size of 0 counts as 1) and at most the
  distance to the end, so that the counter grows strictly and stays at or below the end.
\<close>

theorem chunk_loop_terminates:
  assumes "start < end_ea"
  shows "(\<exists>result. collect_chunks db include_data start end_ea start acc = Some result)
       \<and> (\<forall>cur. cur < end_ea \<longrightarrow>
            1 \<le> advance db end_ea cur
            \<and> cur < cur + advance db end_ea cur
            \<and> cur + advance db end_ea cur \<le> end_ea)"
proof (intro conjI allI impI)
  show "\<exists>result. collect_chunks db include_data start end_ea start acc = Some result"
    by (rule collect_chunks_returns)
next
  fix cur :: int
  assume "cur < end_ea"
  from advance_bounds[OF this, of db]
  show "1 \<le> advance db end_ea cur" and "cur < cur + advance db end_ea cur"
    and "cur + advance db end_ea cur \<le> end_ea"
    by simp_all
qed

theorem chunk_loop_terminates_witness:
  "(\<exists>result. collect_chunks (sample_ida True) False 4096 4099 4096 ([], []) = Some result)
   \<and> advance (sample_ida True) 4099 4096 = 1"
  using chunk_loop_terminates[of 4096 4099 "sample_ida True" False "([], [])"]
  by (simp add: advance_def sample_ida_def)

text \<open>Hence \<open>generate_yara_rule\<close> itself always returns.\<close>

lemma generate_body_returns:
  "\<exists>r. generate_body db name start_addr end_addr mode include_data = Some r"
proof (cases "parse_address db start_addr")
  case (Inl e)
  then show ?thesis by (simp add: generate_body_def)
next
  case start: (Inr start)
  show ?thesis
  proof (cases "parse_address db end_addr")
    case (Inl e)
    with start show ?thesis by (simp add: generate_body_def)
  next
    case stop: (Inr end_ea)
    obtain context_calls outcome where
      ctx: "get_capstone_context db start = (context_calls, outcome)"
      by (cases "get_capstone_context db start")
    show ?thesis
    proof (cases outcome)
      case (Inl e)
      with start stop ctx show ?thesis by (simp add: generate_body_def)
    next
      case (Inr found)
      obtain arch cs_mode where found: "found = (arch, cs_mode)"
        by (cases found)
      obtain calls chunks where
        loop: "collect_chunks db include_data start end_ea start
                 (context_calls @ [YaraGenerator mode arch cs_mode], []) = Some (calls, chunks)"
        using collect_chunks_returns by (metis surj_pair)
      show ?thesis
        using start stop ctx Inr found loop
        by (simp add: generate_body_def split: sum.splits)
    qed
  qed
qed

lemma generate_yara_rule_returns:
  "\<exists>r. generate_yara_rule db name start_addr end_addr mode include_data = Some r"
proof -
  obtain calls r where
    "generate_body db name start_addr end_addr mode include_data = Some (calls, r)"
    using generate_body_returns by (metis surj_pair)
  then show ?thesis
    by (cases r) (simp_all add: generate_yara_rule_def)
qed

text \<open>The loop only adds to the calls made before it.\<close>

lemma add_item_extends: "prefix (fst acc) (fst (add_item db include_data start cur n acc))"
  by (simp add: add_item_def Let_def split: option.splits)

lemma collect_chunks_extends:
  "collect_chunks db include_data start end_ea cur acc = Some result \<Longrightarrow>
   prefix (fst acc) (fst result)"
proof (induction "nat (end_ea - cur)" arbitrary: cur acc rule: less_induct)
  case less
  show ?case
  proof (cases "cur < end_ea")
    case False
    with less.prems show ?thesis by (subst (asm) collect_chunks.simps) simp
  next
    case True
    from advance_bounds[OF True, of db]
    have smaller: "nat (end_ea - (cur + advance db end_ea cur)) < nat (end_ea - cur)"
      by linarith
    from less.prems True
    have "collect_chunks db include_data start end_ea (cur + advance db end_ea cur)
            (add_item db include_data start cur (advance db end_ea cur) acc) = Some result"
      by (subst (asm) collect_chunks.simps) simp
    from less.hyps[OF smaller this]
    have "prefix (fst (add_item db include_data start cur (advance db end_ea cur) acc))
            (fst result)" .
    with add_item_extends[of acc db include_data start cur "advance db end_ea cur"]
    show ?thesis by (rule prefix_order.trans)
  qed
qed

lemma get_capstone_context_calls:
  "prefix [Inf_get_procname, Inf_get_app_bitness, Inf_is_be] (fst (get_capstone_context db ea))"
  by (simp add: get_capstone_context_def Let_def)

text \<open>
  A run that gets past the validation begins by reading the processor of the database,
  so its list of calls is not empty.
\<close>

lemma work_makes_calls:
  assumes "HAS_MKYARA db" and "mode \<in> set valid_modes"
    and "parse_address db start_addr = Inr start" and "parse_address db end_addr = Inr end_ea"
    and "start < end_ea"
    and "generate_yara_rule db name start_addr end_addr mode include_data = Some (calls, r)"
  shows "prefix [Inf_get_procname, Inf_get_app_bitness, Inf_is_be] calls"
proof -
  obtain context_calls outcome where
    ctx: "get_capstone_context db start = (context_calls, outcome)"
    by (cases "get_capstone_context db start")
  have reads: "prefix [Inf_get_procname, Inf_get_app_bitness, Inf_is_be] context_calls"
    using get_capstone_context_calls[of db start] ctx by simp
  show ?thesis
  proof (cases outcome)
    case (Inl e)
    with assms ctx reads show ?thesis
      by (simp add: generate_yara_rule_def generate_body_def)
  next
    case (Inr found)
    obtain arch cs_mode where found: "found = (arch, cs_mode)"
      by (cases found)
    obtain loop_calls chunks where
      loop: "collect_chunks db include_data start end_ea start
               (context_calls @ [YaraGenerator mode arch cs_mode], []) = Some (loop_calls, chunks)"
      using collect_chunks_returns by (metis surj_pair)
    from collect_chunks_extends[OF loop]
    have "prefix (context_calls @ [YaraGenerator mode arch cs_mode]) loop_calls"
      by simp
    then have "prefix context_calls (loop_calls @ [Generate_rule])"
      by (meson prefix_order.trans prefixI prefix_prefix)
    with reads have "prefix [Inf_get_procname, Inf_get_app_bitness, Inf_is_be]
                       (loop_calls @ [Generate_rule])"
      by (rule prefix_order.trans)
    with assms ctx Inr found loop show ?thesis
      by (auto simp add: generate_yara_rule_def generate_body_def split: sum.splits)
  qed
qed

text \<open>
  C10, as stated, fails where \<open>mkyara\<close> is not installed: the check of line 89 comes
  before the validation, and the answer to the invalid mode \<open>bogus\<close> is the error about
  the missing libraries, which does not name the mode.
\<close>

theorem invalid_mode_without_libraries:
  "''bogus'' \<notin> set valid_modes
   \<and> generate_yara_rule (sample_ida False) ''r'' ''0x1000'' ''0x1003'' ''bogus'' False
       = Some ([],
               JObj [(''error'',
                      JStr (''Required libraries not found. Please install ''
                            @ [CHR 0x27] @ ''mkyara'' @ [CHR 0x27] @ '' and ''
                            @ [CHR 0x27] @ ''capstone'' @ [CHR 0x27] @ ''.'' @ [CHR 0x0A]
                            @ ''pip install mkyara capstone''))])
   \<and> generate_yara_rule (sample_ida False) ''r'' ''0x1000'' ''0x1003'' ''bogus'' False
       \<noteq> Some ([],
               JObj [(''error'',
                      JStr (''Invalid mode '' @ [CHR 0x27] @ ''bogus'' @ [CHR 0x27]
                            @ ''. Must be one of: loose, normal, strict''))])"
  by (simp add: generate_yara_rule_def valid_modes_def yara_error_def sample_ida_def)

text \<open>
  C10, amended. Where \<open>mkyara\<close> and \<open>capstone\<close> were imported, \<open>generate_yara_rule\<close>
  validates its inputs before doing any work. For every mode that is not \<open>loose\<close>,
  \<open>normal\<close> or \<open>strict\<close> it returns the error dictionary that names the mode; for
  every pair of parsed addresses with \<open>start \<ge> end\<close> it returns an error dictionary
  (the one about the addresses when the mode is valid, the one about the mode
  otherwise). In both cases the list of calls is empty: nothing of the database has been
  read, no generator has been built and no rule has been generated.
\<close>

theorem validation_errors:
  assumes "HAS_MKYARA db"
  shows "(mode \<notin> {''loose'', ''normal'', ''strict''} \<longrightarrow>
            generate_yara_rule db name start_addr end_addr mode include_data
              = Some ([],
                      JObj [(''error'',
                             JStr (''Invalid mode '' @ [CHR 0x27] @ mode @ [CHR 0x27]
                                   @ ''. Must be one of: loose, normal, strict''))]))
       \<and> (parse_address db start_addr = Inr start \<longrightarrow>
          parse_address db end_addr = Inr end_ea \<longrightarrow> start \<ge> end_ea \<longrightarrow>
            generate_yara_rule db name start_addr end_addr mode include_data
              = Some ([],
                      JObj [(''error'',
                             JStr (if mode \<in> {''loose'', ''normal'', ''strict''}
                                   then ''Start address must be less than end address.''
                                   else ''Invalid mode '' @ [CHR 0x27] @ mode @ [CHR 0x27]
                                        @ ''. Must be one of: loose, normal, strict''))]))"
  using assms
  by (simp add: generate_yara_rule_def generate_body_def valid_modes_def yara_error_def)

theorem validation_errors_witness:
  "generate_yara_rule (sample_ida True) ''r'' ''0x1000'' ''0x1003'' ''bogus'' False
     = Some ([],
             JObj [(''error'',
                    JStr (''Invalid mode '' @ [CHR 0x27] @ ''bogus'' @ [CHR 0x27]
                          @ ''. Must be one of: loose, normal, strict''))])
   \<and> generate_yara_rule (sample_ida True) ''r'' ''0x1003'' ''0x1000'' ''normal'' False
     = Some ([], JObj [(''error'', JStr ''Start address must be less than end address.'')])"
proof -
  have libs: "HAS_MKYARA (sample_ida True)"
    by (simp add: sample_ida_def)
  have parsed: "parse_address (sample_ida True) ''0x1003'' = Inr 4099"
    "parse_address (sample_ida True) ''0x1000'' = Inr 4096"
    by (simp_all add: sample_ida_def)
  have bad_mode: "''bogus'' \<notin> {''loose'', ''normal'', ''strict''}"
    by simp
  have first: "generate_yara_rule (sample_ida True) ''r'' ''0x1000'' ''0x1003'' ''bogus'' False
     = Some ([],
             JObj [(''error'',
                    JStr (''Invalid mode '' @ [CHR 0x27] @ ''bogus'' @ [CHR 0x27]
                          @ ''. Must be one of: loose, normal, strict''))])"
    by (rule validation_errors[OF libs, THEN conjunct1, THEN mp, OF bad_mode])
  have "generate_yara_rule (sample_ida True) ''r'' ''0x1003'' ''0x1000'' ''normal'' False
     = Some ([],
             JObj [(''error'',
                    JStr (if ''normal'' \<in> {''loose'', ''normal'', ''strict''}
                          then ''Start address must be less than end address.''
                          else ''Invalid mode '' @ [CHR 0x27] @ ''normal'' @ [CHR 0x27]
                               @ ''. Must be one of: loose, normal, strict''))])"
    by (rule validation_errors[OF libs, THEN conjunct2, THEN mp, THEN mp, THEN mp,
          OF parsed(1) parsed(2)]) simp
  then have second:
    "generate_yara_rule (sample_ida True) ''r'' ''0x1003'' ''0x1000'' ''normal'' False
       = Some ([], JObj [(''error'', JStr ''Start address must be less than end address.'')])"
    by simp
  show ?thesis by (rule conjI[OF first second])
qed

end
